theory Spec2Isabelle
  imports Main
begin

section \<open>The entity list view: local state and derived query variables\<close>

text \<open>
  \<^verbatim>\<open>packages/amplication-client/src/Entity/EntityList.tsx\<close>.
  The component keeps three pieces of local state (\<^verbatim>\<open>useState\<close>): the sort data, the
  search phrase and the flag of the "New Entity" dialog. Every handler is a state
  transformer; the variables of the \<^verbatim>\<open>GET_ENTITIES\<close> query are computed from the state
  on every render.
\<close>

text \<open>
  The columns handed to the data grid (\<^verbatim>\<open>const fields: DataField[]\<close>); an optional flag
  that is not written is \<open>None\<close>. (The records below generate a constant \<open>fields\<close> of
  their own, hence the suffix.)
\<close>

record DataField =
  name :: string
  title :: string
  minWidth :: "bool option"
  sortable :: "bool option"

definition fields_list :: "DataField list" where
  "fields_list =
     [\<lparr>name = ''lockedByUserId'', title = ''L'', minWidth = Some True, sortable = None\<rparr>,
      \<lparr>name = ''displayName'', title = ''Name'', minWidth = None, sortable = Some True\<rparr>,
      \<lparr>name = ''description'', title = ''Description'', minWidth = None, sortable = Some True\<rparr>,
      \<lparr>name = ''versionNumber'', title = ''Version'', minWidth = None, sortable = None\<rparr>,
      \<lparr>name = ''lastCommitAt'', title = ''Last Commit'', minWidth = None, sortable = None\<rparr>]"

text \<open>
  \<^verbatim>\<open>type sortData = { field: string | null; order: number | null }\<close>.
  The order is the number handed over by the data grid; the code only ever compares it
  with the literal \<^verbatim>\<open>1\<close>, so it is kept as an integer.
\<close>

record sortData =
  field :: "string option"
  order :: "int option"

record State =
  sortDir :: sortData
  searchPhrase :: string
  newEntity :: bool

definition NAME_FIELD :: string where
  "NAME_FIELD = ''displayName''"

definition INITIAL_SORT_DATA :: sortData where
  "INITIAL_SORT_DATA = \<lparr>field = None, order = None\<rparr>"

definition POLL_INTERVAL :: nat where
  "POLL_INTERVAL = 2000"

text \<open>The three \<^verbatim>\<open>useState\<close> initial values.\<close>

definition initial_State :: State where
  "initial_State = \<lparr>sortDir = INITIAL_SORT_DATA, searchPhrase = [], newEntity = False\<rparr>"

text \<open>
  \<^verbatim>\<open>setSortDir({ field: fieldName, order: order === null ? 1 : order })\<close>
\<close>

definition handleSortChange :: "string \<Rightarrow> int option \<Rightarrow> State \<Rightarrow> State" where
  "handleSortChange fieldName ord s =
     s\<lparr>sortDir := \<lparr>field = Some fieldName,
                    order = Some (case ord of None \<Rightarrow> 1 | Some n \<Rightarrow> n)\<rparr>\<rparr>"

text \<open>\<^verbatim>\<open>setSearchPhrase(value)\<close>\<close>

definition handleSearchChange :: "string \<Rightarrow> State \<Rightarrow> State" where
  "handleSearchChange v s = s\<lparr>searchPhrase := v\<rparr>"

text \<open>
  \<^verbatim>\<open>useCallback(() => { setNewEntity(!newEntity) }, [newEntity, setNewEntity])\<close>.
  The callback closes over the value of \<^verbatim>\<open>newEntity\<close> of the render that created it
  (first argument). Since \<^verbatim>\<open>newEntity\<close> is among the dependencies, every render installs
  a callback that closes over the current flag: \<open>toggleCreateDialog\<close> is that callback,
  run on the state it was created from.
\<close>

definition handleNewEntityClick :: "bool \<Rightarrow> State \<Rightarrow> State" where
  "handleNewEntityClick captured s = s\<lparr>newEntity := \<not> captured\<rparr>"

definition toggleCreateDialog :: "State \<Rightarrow> State" where
  "toggleCreateDialog s = handleNewEntityClick (newEntity s) s"

subsection \<open>The events of the view\<close>

text \<open>
  The handlers are given to the data grid (\<^verbatim>\<open>onSortChange\<close>, \<^verbatim>\<open>onSearchChange\<close>) and to
  the button and the dialog (\<^verbatim>\<open>onClick\<close>, \<^verbatim>\<open>onDismiss\<close>); the state of the view is the
  initial state after a run of such events. The grid asks for a sort by the name of one
  of its columns: \<open>grid_event\<close> holds of the events it can send.
\<close>

datatype event =
  SortChange string "int option"
| SearchChange string
| NewEntityClick

fun handle_event :: "event \<Rightarrow> State \<Rightarrow> State" where
  "handle_event (SortChange fieldName ord) s = handleSortChange fieldName ord s"
| "handle_event (SearchChange v) s = handleSearchChange v s"
| "handle_event NewEntityClick s = toggleCreateDialog s"

fun run_events :: "event list \<Rightarrow> State \<Rightarrow> State" where
  "run_events [] s = s"
| "run_events (e # es) s = run_events es (handle_event e s)"

fun grid_event :: "event \<Rightarrow> bool" where
  "grid_event (SortChange fieldName ord) = (fieldName \<in> set (map name fields_list))"
| "grid_event (SearchChange v) = True"
| "grid_event NewEntityClick = True"

subsection \<open>Query variables\<close>

datatype SortOrder = Asc | Desc

datatype QueryMode = Default | Insensitive

record StringFilter =
  contains :: string
  mode :: QueryMode

text \<open>
  The \<^verbatim>\<open>orderBy\<close> object has one computed key; it is kept as an association list.
  \<^verbatim>\<open>whereName\<close> is \<^verbatim>\<open>undefined\<close> (\<open>None\<close>) or a filter object.
\<close>

record Variables =
  id_variables :: string
  orderBy :: "(string \<times> SortOrder) list"
  whereName :: "StringFilter option"

text \<open>
  \<^verbatim>\<open>sortDir.field || NAME_FIELD\<close>: the operator \<^verbatim>\<open>||\<close> yields its right operand when the
  left one is falsy, which for \<^verbatim>\<open>string | null\<close> is \<^verbatim>\<open>null\<close> and the empty string.
\<close>

definition orderBy_key :: "sortData \<Rightarrow> string" where
  "orderBy_key sd =
     (case field sd of
        None \<Rightarrow> NAME_FIELD
      | Some f \<Rightarrow> if f = [] then NAME_FIELD else f)"

text \<open>\<^verbatim>\<open>sortDir.order === 1 ? models.SortOrder.Desc : models.SortOrder.Asc\<close>\<close>

definition orderBy_direction :: "sortData \<Rightarrow> SortOrder" where
  "orderBy_direction sd = (if order sd = Some 1 then Desc else Asc)"

definition query_variables :: "string \<Rightarrow> State \<Rightarrow> Variables" where
  "query_variables applicationId s =
     \<lparr>id_variables = applicationId,
      orderBy = [(orderBy_key (sortDir s), orderBy_direction (sortDir s))],
      whereName =
        (if searchPhrase s \<noteq> []
         then Some \<lparr>contains = searchPhrase s, mode = Insensitive\<rparr>
         else None)\<rparr>"

section \<open>Entities and the rendered rows\<close>

text \<open>
  The entity objects have the shape selected by the \<^verbatim>\<open>GET_ENTITIES\<close> query. Fields the
  component reads through \<^verbatim>\<open>&&\<close> or \<^verbatim>\<open>?.\<close> are optional.
\<close>

record Account =
  firstName :: string
  lastName :: string

record User =
  account :: "Account option"

record Commit =
  userId :: string
  message :: string
  createdAt :: string
  user :: "User option"

record EntityVersion =
  versionNumber :: int
  commit :: "Commit option"

record Entity =
  id_entity :: string
  displayName :: string
  description :: "string option"
  lockedByUser :: "User option"
  entityVersions :: "EntityVersion list"

text \<open>
  React elements. A prop is a string or \<^verbatim>\<open>undefined\<close>; a child is a text, a number,
  an element, or one of the values that render nothing (\<^verbatim>\<open>null\<close>, \<^verbatim>\<open>undefined\<close>,
  \<^verbatim>\<open>false\<close>).
\<close>

datatype jsx_prop = Str string | Undefined

datatype jsx =
  Text string
| Num int
| Nothing
| Element string "(string \<times> jsx_prop) list" "jsx list"

datatype js_error = TypeError

text \<open>Optional chaining on a prop value: \<^verbatim>\<open>a?.b\<close> is \<^verbatim>\<open>undefined\<close> when \<^verbatim>\<open>a\<close> is absent.\<close>

definition prop_of :: "string option \<Rightarrow> jsx_prop" where
  "prop_of v = (case v of None \<Rightarrow> Undefined | Some s \<Rightarrow> Str s)"

text \<open>A child expression \<^verbatim>\<open>{v}\<close> whose value is a string or absent.\<close>

definition child_of :: "string option \<Rightarrow> jsx" where
  "child_of v = (case v of None \<Rightarrow> Nothing | Some s \<Rightarrow> Text s)"

text \<open>
  \<^verbatim>\<open><UserAvatar firstName={u.account?.firstName} lastName={u.account?.lastName} />\<close>
\<close>

definition UserAvatar :: "Account option \<Rightarrow> jsx" where
  "UserAvatar a =
     Element ''UserAvatar''
       [(''firstName'', prop_of (map_option firstName a)),
        (''lastName'', prop_of (map_option lastName a))] []"

text \<open>
  \<^verbatim>\<open>const [latestVersion] = entity.entityVersions\<close>: destructuring an empty array
  binds \<^verbatim>\<open>undefined\<close>.
\<close>

definition latestVersion :: "Entity \<Rightarrow> EntityVersion option" where
  "latestVersion entity =
     (case entityVersions entity of [] \<Rightarrow> None | v # _ \<Rightarrow> Some v)"

text \<open>The template literal \<^verbatim>\<open>`/${applicationId}/entities/${entity.id}`\<close>.\<close>

definition entity_url :: "string \<Rightarrow> Entity \<Rightarrow> string" where
  "entity_url applicationId entity = ''/'' @ applicationId @ ''/entities/'' @ id_entity entity"

text \<open>The five cells of a row, in the order of the source.\<close>

definition lock_cell :: "Entity \<Rightarrow> jsx" where
  "lock_cell entity =
     Element ''DataTableCell'' [(''className'', Str ''min-width'')]
       [case lockedByUser entity of
          None \<Rightarrow> Nothing
        | Some u \<Rightarrow> UserAvatar (account u)]"

definition name_cell :: "string \<Rightarrow> Entity \<Rightarrow> jsx" where
  "name_cell applicationId entity =
     Element ''DataTableCell'' []
       [Element ''Link''
          [(''className'', Str ''amp-data-grid-item--navigate''),
           (''title'', Str (displayName entity)),
           (''to'', Str (entity_url applicationId entity))]
          [Element ''span'' [(''className'', Str ''text-medium'')]
             [Text (displayName entity)]]]"

definition description_cell :: "Entity \<Rightarrow> jsx" where
  "description_cell entity = Element ''DataTableCell'' [] [child_of (description entity)]"

definition version_cell :: "EntityVersion \<Rightarrow> jsx" where
  "version_cell v = Element ''DataTableCell'' [] [Text ''V'', Num (versionNumber v)]"

definition commit_cell :: "EntityVersion \<Rightarrow> jsx" where
  "commit_cell v =
     Element ''DataTableCell'' []
       [case commit v of
          None \<Rightarrow> Nothing
        | Some c \<Rightarrow> UserAvatar (case user c of None \<Rightarrow> None | Some u \<Rightarrow> account u),
        Element ''span'' [(''className'', Str ''text-medium space-before'')]
          [child_of (map_option message (commit v)), Text '' ''],
        Element ''span'' [(''className'', Str ''text-muted space-before'')]
          [child_of (map_option createdAt (commit v))]]"

text \<open>The element returned by the row callback, given the bound \<^verbatim>\<open>latestVersion\<close>.\<close>

definition data_grid_row :: "string \<Rightarrow> Entity \<Rightarrow> EntityVersion \<Rightarrow> jsx" where
  "data_grid_row applicationId entity v =
     Element ''DataGridRow''
       [(''navigateUrl'', Str (entity_url applicationId entity))]
       [lock_cell entity,
        name_cell applicationId entity,
        description_cell entity,
        version_cell v,
        commit_cell v]"

text \<open>
  The callback given to \<^verbatim>\<open>data?.entities.map\<close>. Reading \<^verbatim>\<open>latestVersion.versionNumber\<close>
  (and \<^verbatim>\<open>latestVersion.commit\<close>) of an \<^verbatim>\<open>undefined\<close> \<^verbatim>\<open>latestVersion\<close> throws a
  \<^verbatim>\<open>TypeError\<close>; nothing before that read can throw.
\<close>

definition render_row :: "string \<Rightarrow> Entity \<Rightarrow> js_error + jsx" where
  "render_row applicationId entity =
     (case latestVersion entity of
        None \<Rightarrow> Inl TypeError
      | Some v \<Rightarrow> Inr (data_grid_row applicationId entity v))"

text \<open>\<^verbatim>\<open>Array.prototype.map\<close> with a callback that may throw: the first throw ends it.\<close>

fun map_rows :: "('a \<Rightarrow> js_error + 'b) \<Rightarrow> 'a list \<Rightarrow> js_error + 'b list" where
  "map_rows f [] = Inr []"
| "map_rows f (x # xs) =
     (case f x of
        Inl e \<Rightarrow> Inl e
      | Inr y \<Rightarrow> (case map_rows f xs of Inl e \<Rightarrow> Inl e | Inr ys \<Rightarrow> Inr (y # ys)))"

subsection \<open>What a rendered tree shows\<close>

text \<open>The decimal text React writes for a number child.\<close>

definition digit_char :: "nat \<Rightarrow> char" where
  "digit_char d = char_of (48 + d)"

function string_of_nat :: "nat \<Rightarrow> string" where
  "string_of_nat n =
     (if n < 10 then [digit_char n] else string_of_nat (n div 10) @ [digit_char (n mod 10)])"
  by pat_completeness auto
termination
  by (relation "measure id") auto

definition string_of_int :: "int \<Rightarrow> string" where
  "string_of_int i = (if i < 0 then CHR ''-'' # string_of_nat (nat (- i)) else string_of_nat (nat i))"

text \<open>The text content of a tree, and the number of elements of a given component in it.\<close>

fun text_content :: "jsx \<Rightarrow> string" where
  "text_content (Text s) = s"
| "text_content (Num n) = string_of_int n"
| "text_content Nothing = []"
| "text_content (Element tag props children) = concat (map text_content children)"

fun count_elements :: "string \<Rightarrow> jsx \<Rightarrow> nat" where
  "count_elements t (Text s) = 0"
| "count_elements t (Num n) = 0"
| "count_elements t Nothing = 0"
| "count_elements t (Element tag props children) =
     (if tag = t then 1 else 0) + sum_list (map (count_elements t) children)"

subsection \<open>The whole view\<close>

text \<open>
  The result of \<^verbatim>\<open>useQuery\<close> as the component reads it. \<^verbatim>\<open>formatError\<close> lives in
  \<^verbatim>\<open>../util/error\<close> and is a parameter of the render.
\<close>

record 'e QueryResult =
  data :: "Entity list option"
  loading :: bool
  error :: "'e option"

record Snackbar =
  snackbar_open :: bool
  snackbar_message :: "string option"

record View =
  dialog_isOpen :: bool
  grid_loading :: bool
  grid_sortDir :: sortData
  grid_rows :: "jsx list option"
  snackbar :: Snackbar

text \<open>
  \<^verbatim>\<open>data?.entities.map(...)\<close> is \<^verbatim>\<open>undefined\<close> while there is no data. A throw inside
  the row callback is a throw of the render.
\<close>

definition render_rows :: "string \<Rightarrow> Entity list option \<Rightarrow> js_error + jsx list option" where
  "render_rows applicationId d =
     (case d of
        None \<Rightarrow> Inr None
      | Some entities \<Rightarrow>
          (case map_rows (render_row applicationId) entities of
             Inl e \<Rightarrow> Inl e
           | Inr rows \<Rightarrow> Inr (Some rows)))"

definition EntityList ::
  "('e option \<Rightarrow> string option) \<Rightarrow> string \<Rightarrow> State \<Rightarrow> 'e QueryResult \<Rightarrow> js_error + View" where
  "EntityList formatError applicationId s q =
     (let errorMessage = formatError (error q) in
      case render_rows applicationId (data q) of
        Inl e \<Rightarrow> Inl e
      | Inr rows \<Rightarrow>
          Inr \<lparr>dialog_isOpen = newEntity s,
               grid_loading = loading q,
               grid_sortDir = sortDir s,
               grid_rows = rows,
               snackbar = \<lparr>snackbar_open = (error q \<noteq> None),
                            snackbar_message = errorMessage\<rparr>\<rparr>)"

section \<open>The polling effect\<close>

text \<open>
  \<^verbatim>\<open>useEffect(() => { startPolling(POLL_INTERVAL); return () => { stopPolling(); }; },
            [stopPolling, startPolling])\<close>.
  The effect body and its cleanup append to the log of calls made to the query client.
\<close>

datatype polling_call = StartPolling nat | StopPolling

definition polling_effect :: "polling_call list \<Rightarrow> polling_call list" where
  "polling_effect cs = cs @ [StartPolling POLL_INTERVAL]"

definition polling_cleanup :: "polling_call list \<Rightarrow> polling_call list" where
  "polling_cleanup cs = cs @ [StopPolling]"

text \<open>
  The life of the component as React drives it: it is mounted, rendered again and
  unmounted. An event carries the identity \<open>'d\<close> of the dependency array
  \<^verbatim>\<open>[stopPolling, startPolling]\<close> of that render. React runs the effect after the mount,
  runs the cleanup and the effect again after a render whose dependencies differ from
  those of the last run, and runs the cleanup at the unmount. \<open>effect_deps\<close> is \<open>None\<close>
  while the component is not mounted.
\<close>

datatype 'd lifecycle = Mount 'd | Render 'd | Unmount

record 'd Component =
  effect_deps :: "'d option"
  calls :: "polling_call list"

definition unmounted :: "'d Component" where
  "unmounted = \<lparr>effect_deps = None, calls = []\<rparr>"

fun lifecycle_step :: "'d lifecycle \<Rightarrow> 'd Component \<Rightarrow> 'd Component" where
  "lifecycle_step (Mount d) c =
     (case effect_deps c of
        None \<Rightarrow> \<lparr>effect_deps = Some d, calls = polling_effect (calls c)\<rparr>
      | Some _ \<Rightarrow> c)"
| "lifecycle_step (Render d) c =
     (case effect_deps c of
        None \<Rightarrow> c
      | Some d' \<Rightarrow>
          if d = d' then c
          else \<lparr>effect_deps = Some d, calls = polling_effect (polling_cleanup (calls c))\<rparr>)"
| "lifecycle_step Unmount c =
     (case effect_deps c of
        None \<Rightarrow> c
      | Some _ \<Rightarrow> \<lparr>effect_deps = None, calls = polling_cleanup (calls c)\<rparr>)"

fun lifecycle_run :: "'d lifecycle list \<Rightarrow> 'd Component \<Rightarrow> 'd Component" where
  "lifecycle_run [] c = c"
| "lifecycle_run (e # es) c = lifecycle_run es (lifecycle_step e c)"

text \<open>\<open>n\<close> cycles of mounting and unmounting.\<close>

definition cycles :: "nat \<Rightarrow> 'd \<Rightarrow> 'd lifecycle list" where
  "cycles n d = concat (replicate n [Mount d, Unmount])"

text \<open>
  Reading a log of calls from a state in which a poll is running or not: every start is
  made at the fixed interval while no poll is running, every stop ends a running poll.
  \<open>polling_after\<close> tells whether a poll is running at the end of the log.
\<close>

fun well_paired :: "bool \<Rightarrow> polling_call list \<Rightarrow> bool" where
  "well_paired running [] = True"
| "well_paired running (StartPolling n # cs) =
     (\<not> running \<and> n = POLL_INTERVAL \<and> well_paired True cs)"
| "well_paired running (StopPolling # cs) = (running \<and> well_paired False cs)"

fun polling_after :: "bool \<Rightarrow> polling_call list \<Rightarrow> bool" where
  "polling_after running [] = running"
| "polling_after running (StartPolling n # cs) = polling_after True cs"
| "polling_after running (StopPolling # cs) = polling_after False cs"

section \<open>The repository selection handler\<close>

text \<open>
  \<^verbatim>\<open>packages/amplication-client/src/Application/github/dialogs/GithubRepos/hooks/useGitSelected.tsx\<close>.
  Of the selected repository only \<^verbatim>\<open>fullName\<close> is read.
\<close>

record GitRepo =
  fullName :: string

record MutationVariables =
  githubRepo :: string
  githubBranch :: "string option"
  appId :: string

text \<open>
  The outcome of a promise. \<^verbatim>\<open>p.catch(h)\<close> settles as \<^verbatim>\<open>p\<close> when \<^verbatim>\<open>p\<close> is fulfilled;
  when \<^verbatim>\<open>p\<close> is rejected it runs \<^verbatim>\<open>h\<close> on the reason and is fulfilled with what
  \<^verbatim>\<open>h\<close> returns (\<^verbatim>\<open>undefined\<close> for \<^verbatim>\<open>console.error\<close>, here \<open>None\<close>).
\<close>

datatype ('e, 'a) promise = Resolved 'a | Rejected 'e

definition promise_catch ::
  "('e, 'a) promise \<Rightarrow> ('e \<Rightarrow> 'w \<Rightarrow> 'w) \<Rightarrow> 'w \<Rightarrow> ('e, 'a option) promise \<times> 'w" where
  "promise_catch p h w =
     (case p of
        Resolved v \<Rightarrow> (Resolved (Some v), w)
      | Rejected e \<Rightarrow> (Resolved None, h e w))"

text \<open>
  What the handler can touch: the mutation client (the invocations it received), the
  console, and the rejections no handler took.
\<close>

record 'e World =
  mutations :: "MutationVariables list"
  console :: "'e list"
  unhandled :: "'e list"

definition console_error :: "'e \<Rightarrow> 'e World \<Rightarrow> 'e World" where
  "console_error e w = w\<lparr>console := console w @ [e]\<rparr>"

text \<open>A promise nobody holds any more: a rejection left in it is reported as unhandled.\<close>

definition discard_promise :: "('e, 'a) promise \<Rightarrow> 'e World \<Rightarrow> 'e World" where
  "discard_promise p w =
     (case p of
        Resolved _ \<Rightarrow> w
      | Rejected e \<Rightarrow> w\<lparr>unhandled := unhandled w @ [e]\<rparr>)"

text \<open>
  The mutate function returned by \<^verbatim>\<open>useMutation\<close>: it takes the variables and returns a
  promise. \<open>mutation_client\<close> is the client that notes each invocation and settles the
  promise as the backend (\<open>outcome\<close>) decides.
\<close>

type_synonym ('e, 'a) mutate =
  "MutationVariables \<Rightarrow> 'e World \<Rightarrow> ('e, 'a) promise \<times> 'e World"

definition mutation_client :: "(MutationVariables \<Rightarrow> ('e, 'a) promise) \<Rightarrow> ('e, 'a) mutate" where
  "mutation_client outcome variables w =
     (outcome variables, w\<lparr>mutations := mutations w @ [variables]\<rparr>)"

text \<open>
  \<^verbatim>\<open>enableSyncWithGithub({ variables: {...} }).catch(console.error)\<close>.
  The handler returns \<^verbatim>\<open>undefined\<close> to its caller: the first component of the result is
  what the caller gets (\<open>Inl\<close> would be a throw), the second the world afterwards.
\<close>

definition handleRepoSelected ::
  "('e, 'a) mutate \<Rightarrow> string \<Rightarrow> GitRepo \<Rightarrow> 'e World \<Rightarrow> ('e + unit) \<times> 'e World" where
  "handleRepoSelected enableSyncWithGithub app data_repo w =
     (let (p, w1) = enableSyncWithGithub
                      \<lparr>githubRepo = fullName data_repo, githubBranch = None, appId = app\<rparr> w;
          (p', w2) = promise_catch p console_error w1
      in (Inr (), discard_promise p' w2))"

section \<open>Auxiliary definitions\<close>

text \<open>
  The invariant of the polling effect: the log of calls is well paired, and a poll is
  running exactly while the component is mounted.
\<close>

definition polling_inv :: "'d Component \<Rightarrow> bool" where
  "polling_inv c =
     (well_paired False (calls c) \<and> polling_after False (calls c) = (effect_deps c \<noteq> None))"


text \<open>Sample data: an unlocked entity and a version without a commit.\<close>

definition example_version :: EntityVersion where
  "example_version = \<lparr>versionNumber = 3, commit = None\<rparr>"

definition example_entity :: "EntityVersion list \<Rightarrow> Entity" where
  "example_entity vs =
     \<lparr>id_entity = ''e1'', displayName = ''User'', description = None, lockedByUser = None,
      entityVersions = vs\<rparr>"


section \<open>Lemmas\<close>

lemma well_paired_append:
  "well_paired r (xs @ ys) = (well_paired r xs \<and> well_paired (polling_after r xs) ys)"
  by (induction r xs rule: well_paired.induct) auto

lemma polling_after_append:
  "polling_after r (xs @ ys) = polling_after (polling_after r xs) ys"
  by (induction r xs rule: polling_after.induct) auto

lemma lifecycle_step_inv: "polling_inv c \<Longrightarrow> polling_inv (lifecycle_step e c)"
  by (cases e)
     (auto simp add: polling_inv_def polling_effect_def polling_cleanup_def
        well_paired_append polling_after_append split: option.splits)

lemma lifecycle_run_inv: "polling_inv c \<Longrightarrow> polling_inv (lifecycle_run es c)"
  by (induction es arbitrary: c) (simp_all add: lifecycle_step_inv)

lemma lifecycle_run_cycles:
  "effect_deps c = None \<Longrightarrow>
     lifecycle_run (cycles n d) c =
       \<lparr>effect_deps = None,
        calls = calls c @ concat (replicate n [StartPolling POLL_INTERVAL, StopPolling])\<rparr>"
proof (induction n arbitrary: c)
  case 0
  then show ?case by (simp add: cycles_def)
next
  case (Suc n)
  let ?c' = "\<lparr>effect_deps = None, calls = calls c @ [StartPolling POLL_INTERVAL, StopPolling]\<rparr> :: 'a Component"
  have "lifecycle_run (cycles (Suc n) d) c = lifecycle_run (cycles n d) ?c'"
    using Suc.prems by (simp add: cycles_def polling_effect_def polling_cleanup_def)
  also have "\<dots> = \<lparr>effect_deps = None,
        calls = calls ?c' @ concat (replicate n [StartPolling POLL_INTERVAL, StopPolling])\<rparr>"
    by (rule Suc.IH) simp
  finally show ?case by simp
qed

lemma map_rows_Inl:
  "x \<in> set xs \<Longrightarrow> f x = Inl TypeError \<Longrightarrow> map_rows f xs = Inl TypeError"
proof (induction xs)
  case Nil
  then show ?case by simp
next
  case (Cons y ys)
  show ?case
  proof (cases "f y")
    case (Inl e)
    then show ?thesis by (cases e) simp
  next
    case (Inr row)
    with Cons.prems have "x \<in> set ys" by auto
    with Cons have "map_rows f ys = Inl TypeError" by simp
    with Inr show ?thesis by simp
  qed
qed




lemma handle_event_field:
  "grid_event e \<Longrightarrow> field (sortDir s) \<noteq> Some [] \<Longrightarrow>
     field (sortDir (handle_event e s)) \<noteq> Some []"
  by (cases e)
     (auto simp add: handleSortChange_def handleSearchChange_def toggleCreateDialog_def
        handleNewEntityClick_def fields_list_def)

lemma run_events_field:
  "list_all grid_event evs \<Longrightarrow> field (sortDir s) \<noteq> Some [] \<Longrightarrow>
     field (sortDir (run_events evs s)) \<noteq> Some []"
  by (induction evs arbitrary: s) (simp_all add: handle_event_field)

lemma orderBy_key_nonempty:
  "field sd \<noteq> Some [] \<Longrightarrow>
     orderBy_key sd = (case field sd of None \<Rightarrow> ''displayName'' | Some f \<Rightarrow> f)"
  by (simp add: orderBy_key_def NAME_FIELD_def split: option.splits)


section \<open>The claims\<close>

subsection \<open>Sorting\<close>

text \<open>
  C1, as stated: after \<open>setSort(field, null)\<close> the derived \<open>orderBy\<close> maps the sort field
  to ascending order. The handler stores the order \<open>1\<close> for \<open>null\<close>, and the query
  variables send \<open>Desc\<close> for the order \<open>1\<close>: for the field \<open>description\<close> the derived
  \<open>orderBy\<close> is descending, not ascending.
\<close>

theorem C1_counterexample:
  "orderBy (query_variables ''app-1'' (handleSortChange ''description'' None initial_State))
     = [(''description'', Desc)]
   \<and> orderBy (query_variables ''app-1'' (handleSortChange ''description'' None initial_State))
     \<noteq> [(''description'', Asc)]"
  by (simp add: query_variables_def handleSortChange_def orderBy_key_def orderBy_direction_def)

text \<open>
  C1, amended: for every call \<open>setSort(field, null)\<close> the stored order is \<open>1\<close>, and the
  derived \<open>orderBy\<close> maps the sort key (the field, or the display-name field when the
  field is the empty string) to descending order.
\<close>

theorem setSort_null_direction:
  "sortDir (handleSortChange f None s) = \<lparr>field = Some f, order = Some 1\<rparr>
   \<and> orderBy (query_variables a (handleSortChange f None s))
       = [(if f = [] then NAME_FIELD else f, Desc)]"
  by (simp add: query_variables_def handleSortChange_def orderBy_key_def orderBy_direction_def)

text \<open>
  C2: in every state the view can be in (the initial state after any run of events, the
  grid sorting by its own columns) the \<open>orderBy\<close> key is the sort field when one is set
  and \<open>displayName\<close> when it is \<open>null\<close>. So after every sort by a column the key is that
  column, and in every state without a sort field it is \<open>displayName\<close>.
\<close>

theorem orderBy_key_field:
  "(list_all grid_event evs \<longrightarrow>
      map fst (orderBy (query_variables a (run_events evs initial_State)))
        = [case field (sortDir (run_events evs initial_State)) of
             None \<Rightarrow> ''displayName''
           | Some f \<Rightarrow> f])
   \<and> (fieldName \<in> set (map name fields_list) \<longrightarrow>
        map fst (orderBy (query_variables a (handleSortChange fieldName ord s))) = [fieldName])
   \<and> (field (sortDir s) = None \<longrightarrow>
        map fst (orderBy (query_variables a s)) = [''displayName''])"
proof (intro conjI impI)
  assume "list_all grid_event evs"
  moreover have "field (sortDir initial_State) \<noteq> Some []"
    by (simp add: initial_State_def INITIAL_SORT_DATA_def)
  ultimately have "field (sortDir (run_events evs initial_State)) \<noteq> Some []"
    by (rule run_events_field)
  then show "map fst (orderBy (query_variables a (run_events evs initial_State)))
        = [case field (sortDir (run_events evs initial_State)) of
             None \<Rightarrow> ''displayName''
           | Some f \<Rightarrow> f]"
    by (simp add: query_variables_def orderBy_key_nonempty)
next
  assume "fieldName \<in> set (map name fields_list)"
  then have "fieldName \<noteq> []"
    by (auto simp add: fields_list_def)
  then show "map fst (orderBy (query_variables a (handleSortChange fieldName ord s))) = [fieldName]"
    by (simp add: query_variables_def handleSortChange_def orderBy_key_def)
next
  assume "field (sortDir s) = None"
  then show "map fst (orderBy (query_variables a s)) = [''displayName'']"
    by (simp add: query_variables_def orderBy_key_def NAME_FIELD_def)
qed

theorem orderBy_key_field_witness:
  "map fst (orderBy (query_variables ''app-1''
       (run_events [SortChange ''description'' (Some (- 1)), SearchChange ''user''] initial_State)))
     = [''description'']
   \<and> map fst (orderBy (query_variables ''app-1''
       (handleSortChange ''displayName'' None initial_State))) = [''displayName'']
   \<and> map fst (orderBy (query_variables ''app-1'' initial_State)) = [''displayName'']"
proof -
  note inst = orderBy_key_field
    [of "[SortChange ''description'' (Some (- 1)), SearchChange ''user'']" "''app-1''"
        "''displayName''" None initial_State]
  have h1: "list_all grid_event [SortChange ''description'' (Some (- 1)), SearchChange ''user'']"
    by (simp add: fields_list_def)
  have h2: "''displayName'' \<in> set (map name fields_list)"
    by (simp add: fields_list_def)
  have h3: "field (sortDir initial_State) = None"
    by (simp add: initial_State_def INITIAL_SORT_DATA_def)
  have v: "(case field (sortDir (run_events
              [SortChange ''description'' (Some (- 1)), SearchChange ''user''] initial_State)) of
             None \<Rightarrow> ''displayName'' | Some f \<Rightarrow> f) = ''description''"
    by (simp add: handleSortChange_def handleSearchChange_def)
  from inst h1 h2 h3 show ?thesis
    unfolding v by blast
qed

subsection \<open>Searching\<close>

text \<open>
  C3: for every search phrase, the derived query variables have no name filter exactly
  when the phrase is the empty string, and for a non-empty phrase the filter is the
  case-insensitive \<open>contains\<close> filter with that very phrase.
\<close>

theorem whereName_search_phrase:
  "(whereName (query_variables a (handleSearchChange v s)) = None \<longleftrightarrow> v = [])
   \<and> (v \<noteq> [] \<longrightarrow>
        whereName (query_variables a (handleSearchChange v s))
          = Some \<lparr>contains = v, mode = Insensitive\<rparr>)"
  by (simp add: query_variables_def handleSearchChange_def)

theorem whereName_search_phrase_witness:
  "whereName (query_variables ''app-1'' (handleSearchChange ''user'' initial_State))
     = Some \<lparr>contains = ''user'', mode = Insensitive\<rparr>
   \<and> whereName (query_variables ''app-1'' (handleSearchChange [] initial_State)) = None"
  using whereName_search_phrase [of "''app-1''" "''user''" initial_State]
    whereName_search_phrase [of "''app-1''" "[]" initial_State]
  by simp

subsection \<open>The create dialog\<close>

text \<open>
  C4: toggling the create dialog twice gives back the state it started from, and one
  toggle flips the flag.
\<close>

theorem toggleCreateDialog_involution:
  "toggleCreateDialog (toggleCreateDialog s) = s
   \<and> newEntity (toggleCreateDialog s) = (\<not> newEntity s)"
  by (simp add: toggleCreateDialog_def handleNewEntityClick_def)

subsection \<open>Polling\<close>

text \<open>
  C5: mounting makes exactly one call, \<open>startPolling(2000)\<close>; unmounting makes exactly
  one call, \<open>stopPolling()\<close>; \<open>n\<close> cycles of mounting and unmounting make \<open>n\<close> pairs of
  a start followed by a stop. After any sequence of life-cycle events the calls are well
  paired, and a poll is running exactly while the component is mounted.
\<close>

theorem polling_paired:
  fixes c :: "'d Component" and es :: "'d lifecycle list"
  shows
  "(effect_deps c = None \<longrightarrow>
      calls (lifecycle_step (Mount d) c) = calls c @ [StartPolling 2000])
   \<and> (effect_deps c \<noteq> None \<longrightarrow>
      calls (lifecycle_step Unmount c) = calls c @ [StopPolling]
      \<and> effect_deps (lifecycle_step Unmount c) = None)
   \<and> lifecycle_run (cycles n d) unmounted =
       \<lparr>effect_deps = None, calls = concat (replicate n [StartPolling 2000, StopPolling])\<rparr>
   \<and> well_paired False (calls (lifecycle_run es unmounted))
   \<and> polling_after False (calls (lifecycle_run es unmounted))
       = (effect_deps (lifecycle_run es unmounted) \<noteq> None)"
proof -
  have inv0: "polling_inv (unmounted :: 'd Component)"
    by (simp add: polling_inv_def unmounted_def)
  have "polling_inv (lifecycle_run es unmounted)"
    using inv0 by (rule lifecycle_run_inv)
  moreover have "lifecycle_run (cycles n d) unmounted =
       \<lparr>effect_deps = None, calls = concat (replicate n [StartPolling 2000, StopPolling])\<rparr>"
    using lifecycle_run_cycles [of unmounted n d] by (simp add: unmounted_def POLL_INTERVAL_def)
  ultimately show ?thesis
    by (auto simp add: polling_inv_def polling_effect_def polling_cleanup_def POLL_INTERVAL_def)
qed

theorem polling_paired_witness:
  "calls (lifecycle_step (Mount 0) (unmounted :: nat Component)) = [StartPolling 2000]
   \<and> calls (lifecycle_step Unmount (lifecycle_step (Mount 0) (unmounted :: nat Component)))
       = [StartPolling 2000, StopPolling]
   \<and> lifecycle_run (cycles 2 0) (unmounted :: nat Component)
       = \<lparr>effect_deps = None,
          calls = [StartPolling 2000, StopPolling, StartPolling 2000, StopPolling]\<rparr>
   \<and> well_paired False
       (calls (lifecycle_run [Mount 0, Render 1, Unmount, Mount 2] (unmounted :: nat Component)))
   \<and> polling_after False
       (calls (lifecycle_run [Mount 0, Render 1, Unmount, Mount 2] (unmounted :: nat Component)))"
  using polling_paired [of "unmounted :: nat Component" 0 2 "[Mount 0, Render 1, Unmount, Mount 2]"]
    polling_paired [of "lifecycle_step (Mount 0) (unmounted :: nat Component)" 0 0 "[]"]
  by (simp add: unmounted_def polling_effect_def POLL_INTERVAL_def numeral_2_eq_2)

subsection \<open>Selecting a repository\<close>

text \<open>
  C6: selecting a repository invokes the mutation once, with the full name of the
  repository, no branch, and the identifier of the application; so for \<open>org/repo\<close> and
  \<open>app-1\<close>.
\<close>

theorem handleRepoSelected_variables:
  "mutations (snd (handleRepoSelected (mutation_client outcome) a r w))
     = mutations w @ [\<lparr>githubRepo = fullName r, githubBranch = None, appId = a\<rparr>]
   \<and> mutations (snd (handleRepoSelected (mutation_client outcome) ''app-1''
                       \<lparr>fullName = ''org/repo''\<rparr> w))
     = mutations w @ [\<lparr>githubRepo = ''org/repo'', githubBranch = None, appId = ''app-1''\<rparr>]"
  by (simp add: handleRepoSelected_def mutation_client_def promise_catch_def
      discard_promise_def console_error_def split: promise.splits)

text \<open>
  C7: when the promise of the mutation is rejected, the handler returns normally, the
  reason is written to the console, and no rejection is left unhandled.
\<close>

theorem handleRepoSelected_failure:
  "enableSyncWithGithub \<lparr>githubRepo = fullName r, githubBranch = None, appId = a\<rparr> w
     = (Rejected e, w1) \<Longrightarrow>
   handleRepoSelected enableSyncWithGithub a r w = (Inr (), w1\<lparr>console := console w1 @ [e]\<rparr>)"
  by (simp add: handleRepoSelected_def promise_catch_def discard_promise_def console_error_def)

theorem handleRepoSelected_failure_witness:
  "handleRepoSelected (mutation_client (\<lambda>_. Rejected ''Network error'' :: (string, unit) promise))
       ''app-1'' \<lparr>fullName = ''org/repo''\<rparr> \<lparr>mutations = [], console = [], unhandled = []\<rparr>
     = (Inr (),
        \<lparr>mutations = [\<lparr>githubRepo = ''org/repo'', githubBranch = None, appId = ''app-1''\<rparr>],
         console = [''Network error''],
         unhandled = []\<rparr>)"
  using handleRepoSelected_failure
    [of "mutation_client (\<lambda>_. Rejected ''Network error'' :: (string, unit) promise)"
        "\<lparr>fullName = ''org/repo''\<rparr>" "''app-1''"
        "\<lparr>mutations = [], console = [], unhandled = []\<rparr>"
        "''Network error''"
        "\<lparr>mutations = [\<lparr>githubRepo = ''org/repo'', githubBranch = None, appId = ''app-1''\<rparr>],
          console = [], unhandled = []\<rparr>"]
  by (simp add: mutation_client_def)

subsection \<open>Rendering\<close>




text \<open>
  C9: an entity without lock owner whose latest version has no commit renders a row
  with no avatar at all, with the version label \<open>V\<close> followed by the version number,
  and with a commit cell that holds only the blank between its two spans.
\<close>

theorem row_without_lock_and_commit:
  "lockedByUser entity = None \<and> entityVersions entity = v # vs \<and> commit v = None \<longrightarrow>
     render_row a entity = Inr (data_grid_row a entity v)
     \<and> data_grid_row a entity v =
         Element ''DataGridRow'' [(''navigateUrl'', Str (entity_url a entity))]
           [Element ''DataTableCell'' [(''className'', Str ''min-width'')] [Nothing],
            name_cell a entity,
            description_cell entity,
            Element ''DataTableCell'' [] [Text ''V'', Num (versionNumber v)],
            Element ''DataTableCell'' []
              [Nothing,
               Element ''span'' [(''className'', Str ''text-medium space-before'')]
                 [Nothing, Text '' ''],
               Element ''span'' [(''className'', Str ''text-muted space-before'')]
                 [Nothing]]]
     \<and> count_elements ''UserAvatar'' (data_grid_row a entity v) = 0
     \<and> text_content (version_cell v) = ''V'' @ string_of_int (versionNumber v)
     \<and> text_content (commit_cell v) = '' ''"
  by (simp add: render_row_def latestVersion_def data_grid_row_def lock_cell_def version_cell_def
      commit_cell_def name_cell_def description_cell_def child_of_def split: option.splits)

theorem row_without_lock_and_commit_witness:
  "render_row ''app-1'' (example_entity [example_version])
     = Inr (data_grid_row ''app-1'' (example_entity [example_version]) example_version)
   \<and> count_elements ''UserAvatar''
       (data_grid_row ''app-1'' (example_entity [example_version]) example_version) = 0
   \<and> text_content (version_cell example_version) = ''V3''
   \<and> text_content (commit_cell example_version) = '' ''"
proof -
  have h: "lockedByUser (example_entity [example_version]) = None
      \<and> entityVersions (example_entity [example_version]) = example_version # []
      \<and> commit example_version = None"
    by (simp add: example_entity_def example_version_def)
  note c = row_without_lock_and_commit
    [of "example_entity [example_version]" example_version "[]" "''app-1''", THEN mp, OF h]
  have n: "string_of_int (versionNumber example_version) = ''3''"
    by code_simp
  from c have "text_content (version_cell example_version)
      = ''V'' @ string_of_int (versionNumber example_version)"
    by blast
  with n have "text_content (version_cell example_version) = ''V3''"
    by simp
  with c show ?thesis
    by blast
qed

text \<open>
  C10: an entity whose list of versions is empty makes the row callback throw a
  \<open>TypeError\<close>, and with it the render of any list that contains the entity.
\<close>

theorem empty_entityVersions_fails:
  "entityVersions entity = [] \<longrightarrow>
     render_row a entity = Inl TypeError
     \<and> (entity \<in> set entities \<longrightarrow>
          render_rows a (Some entities) = Inl TypeError
          \<and> EntityList formatError a s (q\<lparr>data := Some entities\<rparr>) = Inl TypeError)"
proof (intro impI conjI)
  assume e: "entityVersions entity = []"
  then show r: "render_row a entity = Inl TypeError"
    by (simp add: render_row_def latestVersion_def)
  assume "entity \<in> set entities"
  then have "map_rows (render_row a) entities = Inl TypeError"
    using r by (rule map_rows_Inl)
  then show "render_rows a (Some entities) = Inl TypeError"
    by (simp add: render_rows_def)
  then show "EntityList formatError a s (q\<lparr>data := Some entities\<rparr>) = Inl TypeError"
    by (simp add: EntityList_def)
qed

theorem empty_entityVersions_fails_witness:
  "render_row ''app-1'' (example_entity []) = Inl TypeError
   \<and> EntityList (\<lambda>e. e) ''app-1'' initial_State
       \<lparr>data = Some [example_entity [example_version], example_entity []],
        loading = False, error = None :: string option\<rparr> = Inl TypeError"
  using empty_entityVersions_fails
    [of "example_entity []" "''app-1''"
        "[example_entity [example_version], example_entity []]"
        "\<lambda>e. e" initial_State "\<lparr>data = None, loading = False, error = None\<rparr>"]
  by (simp add: example_entity_def)

end
